theory Spec2Isabelle
  imports Main "HOL-Library.Word"
begin

section \<open>Values exchanged with the web framework\<close>

text \<open>
  The program is \<^verbatim>\<open>app.py\<close> (a Flask application with one view) and
  \<^verbatim>\<open>test_app.py\<close> (one test through the framework's test client).  The view,
  the registration of its route, the start-up guard and the test are translated from
  these two files.  The web framework they call is not part of the sources; the pieces of
  it that the properties need are modelled from the specification's description of the
  HTTP server and are marked as such.

  A Python \<^verbatim>\<open>str\<close> is held as the \<^typ>\<open>char\<close> list of its UTF-8 encoding, a
  \<^verbatim>\<open>bytes\<close> value as a list of 8-bit words.
\<close>

type_synonym byte = "8 word"

type_synonym bytes = "byte list"

record request =
  req_method :: string
  path :: string
  headers :: "(string \<times> string) list"
  body :: bytes

text \<open>What the test reads from a response: \<^verbatim>\<open>response.status_code\<close> and
  \<^verbatim>\<open>response.data\<close>.\<close>

record response =
  status_code :: nat
  data :: bytes

text \<open>A raised Python exception, with its message.\<close>

datatype exn = Exception string

text \<open>
  A view function is called while a request is being handled.  It can read that request,
  read and change the state \<open>'g\<close> shared by the whole process (module globals, files, the
  clock, a random generator), and either returns a \<^verbatim>\<open>str\<close> or raises.
\<close>

type_synonym 'g view = "request \<Rightarrow> 'g \<Rightarrow> (exn + string) \<times> 'g"

section \<open>The application: \<^verbatim>\<open>app.py\<close>\<close>

text \<open>
  \<^verbatim>\<open>
  def home():
      return "Hello World!"
  \<close>
  The view takes no argument, reads nothing and assigns nothing.
\<close>

definition home :: "'g view" where
  "home req g = (Inr ''Hello World!'', g)"

text \<open>A route: the methods it answers, its path, and the view bound to it.\<close>

record 'g route =
  route_methods :: "string list"
  route_path :: string
  view_func :: "'g view"

type_synonym 'g flask = "'g route list"

text \<open>
  Modelled from the spec: the application object \<^verbatim>\<open>Flask(__name__)\<close>, whose class
  is the framework's and is not in the sources.  The specification has exactly one route in
  the finished application, so a new application has none.
\<close>

definition Flask :: "string \<Rightarrow> 'g flask" where
  "Flask import_name = []"

text \<open>
  Modelled from the spec: the decorator \<^verbatim>\<open>@app.route(rule)\<close>, which is the framework's.
  The specification binds the view to the path and to the method \<^verbatim>\<open>GET\<close>.  The source
  passes no list of methods; which further methods the framework then serves on the route
  is not described, and is the parameter \<open>implicit\<close>.
\<close>

definition route :: "string list \<Rightarrow> string \<Rightarrow> 'g view \<Rightarrow> 'g flask \<Rightarrow> 'g flask" where
  "route implicit rule f a =
     a @ [\<lparr>route_methods = ''GET'' # implicit, route_path = rule, view_func = f\<rparr>]"

text \<open>
  \<^verbatim>\<open>
  app=Flask(__name__)

  @app.route("/")
  def home(): ...
  \<close>
\<close>

definition app :: "string list \<Rightarrow> string \<Rightarrow> 'g flask" where
  "app implicit name = route implicit ''/'' home (Flask name)"

section \<open>Handling one request\<close>

datatype http_error = NotFound | MethodNotAllowed

text \<open>
  Modelled from the spec: the framework's routing.  Method and path are compared as
  strings, without wildcards or parameters; an unknown path is \<open>NotFound\<close>, a known path
  with a method that none of its routes answers is \<open>MethodNotAllowed\<close>.
\<close>

definition match_route :: "'g flask \<Rightarrow> string \<Rightarrow> string \<Rightarrow> http_error + 'g route" where
  "match_route a m p =
     (case filter (\<lambda>r. route_path r = p) a of
        [] \<Rightarrow> Inl NotFound
      | r # rs \<Rightarrow>
          (case filter (\<lambda>r. m \<in> set (route_methods r)) (r # rs) of
             [] \<Rightarrow> Inl MethodNotAllowed
           | r' # rs' \<Rightarrow> Inr r'))"

text \<open>The bytes of a text: one byte for each character of its UTF-8 form.\<close>

definition encode :: "string \<Rightarrow> bytes" where
  "encode s = map (\<lambda>c. word_of_nat (of_char c)) s"

text \<open>
  Modelled from the spec: the framework turns the text a view returns into a response with
  status 200 and the UTF-8 bytes of the text as body.  (The content type is only said to be
  a text type and is not modelled.)
\<close>

definition make_response :: "string \<Rightarrow> response" where
  "make_response rv = \<lparr>status_code = 200, data = encode rv\<rparr>"

text \<open>
  What the client gets: the response built from the view's value, the framework's own
  error response, or nothing because the view raised (the specification states no
  conversion of a failing view).
\<close>

datatype reply = Replied response | Rejected http_error | Failed exn

text \<open>The status code of the framework's error responses: 404 and 405.\<close>

fun status :: "reply \<Rightarrow> nat option" where
  "status (Replied r) = Some (status_code r)"
| "status (Rejected NotFound) = Some 404"
| "status (Rejected MethodNotAllowed) = Some 405"
| "status (Failed e) = None"

text \<open>
  Modelled from the spec: dispatching a request, which is the framework's: match the
  route, call its view, serialise what it returns.
\<close>

definition dispatch :: "'g flask \<Rightarrow> request \<Rightarrow> 'g \<Rightarrow> reply \<times> 'g" where
  "dispatch a req g =
     (case match_route a (req_method req) (path req) of
        Inl e \<Rightarrow> (Rejected e, g)
      | Inr r \<Rightarrow>
          (case view_func r req g of
             (Inl e, g') \<Rightarrow> (Failed e, g')
           | (Inr rv, g') \<Rightarrow> (Replied (make_response rv), g')))"

text \<open>A sequence of requests handled one after the other by the same process.\<close>

fun serve_all :: "'g flask \<Rightarrow> request list \<Rightarrow> 'g \<Rightarrow> reply list \<times> 'g" where
  "serve_all a [] g = ([], g)"
| "serve_all a (req # reqs) g =
     (case dispatch a req g of
        (x, g') \<Rightarrow> (case serve_all a reqs g' of (xs, g'') \<Rightarrow> (x # xs, g'')))"

section \<open>The test: \<^verbatim>\<open>test_app.py\<close>\<close>

text \<open>
  Modelled from the spec: the test client's \<^verbatim>\<open>get\<close>, an in-process simulation of a
  request with the given path and the method \<^verbatim>\<open>GET\<close>.
\<close>

definition client_get :: "'g flask \<Rightarrow> string \<Rightarrow> 'g \<Rightarrow> reply \<times> 'g" where
  "client_get a p g = dispatch a \<lparr>req_method = ''GET'', path = p, headers = [], body = []\<rparr> g"

text \<open>
  \<^verbatim>\<open>
  def test_home():
      response=app.test_client().get("/")
      assert response.status_code==200
      assert response.data== b"Hello World!"
  \<close>
  The test imports the module, whose name is then \<^verbatim>\<open>app\<close>.  It passes when both
  assertions hold.
\<close>

definition test_home :: "string list \<Rightarrow> 'g \<Rightarrow> bool" where
  "test_home implicit g =
     (case fst (client_get (app implicit ''app'') ''/'' g) of
        Replied response \<Rightarrow>
          status_code response = 200 \<and>
          data response = [72, 101, 108, 108, 111, 32, 87, 111, 114, 108, 100, 33]
      | Rejected e \<Rightarrow> False
      | Failed e \<Rightarrow> False)"

section \<open>Starting the server: the end of \<^verbatim>\<open>app.py\<close>\<close>

text \<open>
  What the operating system answers when the process asks to listen on a host and port.
\<close>

datatype bind_status = Available | AddressInUse | PermissionDenied | InvalidAddress

datatype startup_error = BindError | StartupError

text \<open>
  What reaches a listening server from outside: a request, or the signal that ends it.
  The outside world is the sequence \<open>evs 0, evs 1, \<dots>\<close> of these events.
\<close>

datatype event = Incoming request | Terminate

text \<open>
  Modelled from the spec: the framework's accept loop.  It answers the incoming requests
  in order and returns only when it is terminated from outside; on a sequence of events
  without \<open>Terminate\<close> it never returns, which is the value \<open>None\<close>.
\<close>

partial_function (option) serve_forever ::
  "'g flask \<Rightarrow> (nat \<Rightarrow> event) \<Rightarrow> nat \<Rightarrow> 'g \<Rightarrow> reply list \<Rightarrow> (reply list \<times> 'g) option" where
  "serve_forever a evs i g log =
     (case evs i of
        Terminate \<Rightarrow> Some (log, g)
      | Incoming req \<Rightarrow>
          (case dispatch a req g of (x, g') \<Rightarrow> serve_forever a evs (Suc i) g' (log @ [x])))"

text \<open>
  Modelled from the spec: \<^verbatim>\<open>app.run(host, port)\<close>, the specification's \<^verbatim>\<open>start()\<close>,
  which is the framework's.  It fails with \<open>BindError\<close> when the port is in use or binding
  is not permitted, with \<open>StartupError\<close> when the address is invalid, and otherwise
  listens on the address and serves.  The result names the address bound and what the
  loop returned.
\<close>

definition run ::
  "'g flask \<Rightarrow> string \<Rightarrow> nat \<Rightarrow> (string \<Rightarrow> nat \<Rightarrow> bind_status) \<Rightarrow> (nat \<Rightarrow> event) \<Rightarrow> 'g
     \<Rightarrow> startup_error + (string \<times> nat) \<times> (reply list \<times> 'g) option" where
  "run a host port os evs g =
     (case os host port of
        InvalidAddress \<Rightarrow> Inl StartupError
      | AddressInUse \<Rightarrow> Inl BindError
      | PermissionDenied \<Rightarrow> Inl BindError
      | Available \<Rightarrow> Inr ((host, port), serve_forever a evs 0 g []))"

text \<open>
  How the execution of the module ends: the guard was false and nothing was started, the
  call of \<^verbatim>\<open>run\<close> raised and nothing caught it, or the server ran on an address.
\<close>

datatype 'g process =
  Skipped
| Uncaught startup_error
| Ran "string \<times> nat" "(reply list \<times> 'g) option"

text \<open>
  \<^verbatim>\<open>
  if __name__=="__main__":
      app.run(host="0.0.0.0", port=5000)
  \<close>
  The module reads no command-line argument and no environment variable, and the call is
  not inside a \<^verbatim>\<open>try\<close>.
\<close>

definition main ::
  "string list \<Rightarrow> string \<Rightarrow> (string \<Rightarrow> nat \<Rightarrow> bind_status) \<Rightarrow> (nat \<Rightarrow> event) \<Rightarrow> 'g
     \<Rightarrow> 'g process" where
  "main implicit name os evs g =
     (if name = ''__main__'' then
        (case run (app implicit name) ''0.0.0.0'' 5000 os evs g of
           Inl e \<Rightarrow> Uncaught e
         | Inr (addr, r) \<Rightarrow> Ran addr r)
      else Skipped)"

text \<open>
  The exit status of the interpreter where the module decides it: 1 after an uncaught
  exception.  Nothing is said about a server that was terminated or never ends.
\<close>

fun exit_status :: "'g process \<Rightarrow> nat option" where
  "exit_status (Uncaught e) = Some 1"
| "exit_status (Ran addr r) = None"
| "exit_status Skipped = None"

section \<open>Properties of the view\<close>

lemma encode_hello:
  "encode ''Hello World!'' = [72, 101, 108, 108, 111, 32, 87, 111, 114, 108, 100, 33]"
  by (simp add: encode_def)

lemma match_route_app:
  "match_route (app implicit name) m p =
     (if p = ''/'' then
        (if m \<in> set (''GET'' # implicit)
         then Inr \<lparr>route_methods = ''GET'' # implicit, route_path = ''/'', view_func = home\<rparr>
         else Inl MethodNotAllowed)
      else Inl NotFound)"
  by (simp add: match_route_def app_def route_def Flask_def)

lemma dispatch_app:
  "dispatch (app implicit name) req g =
     (if path req = ''/'' then
        (if req_method req \<in> set (''GET'' # implicit)
         then (Replied (make_response ''Hello World!''), g)
         else (Rejected MethodNotAllowed, g))
      else (Rejected NotFound, g))"
  by (simp add: dispatch_def match_route_app home_def)

lemma test_home_passes: "test_home implicit g"
  by (simp add: test_home_def client_get_def dispatch_app make_response_def encode_hello)

lemma other_path_not_found:
  "path req \<noteq> ''/'' \<Longrightarrow>
     dispatch (app implicit name) req g = (Rejected NotFound, g) \<and>
     status (fst (dispatch (app implicit name) req g)) = Some 404"
  by (simp add: dispatch_app)

lemma dispatch_app_state: "snd (dispatch (app implicit name) req g) = g"
  by (simp add: dispatch_app)

lemma dispatch_app_reply:
  "fst (dispatch (app implicit name) req g) = fst (dispatch (app implicit name) req g')"
  by (simp add: dispatch_app)

text \<open>
  C6.  The root handler is total and free of side effects: for every request and every
  state of the process it returns a value, it does not raise, and it leaves the state as
  it found it.
\<close>

theorem home_total_pure:
  "(\<exists>rv. fst (home req g) = Inr rv) \<and> snd (home req g) = g"
  by (simp add: home_def)


section \<open>Responses to requests\<close>

text \<open>
  C1.  Every request with method \<^verbatim>\<open>GET\<close> and path \<^verbatim>\<open>/\<close> is answered with status
  200 and with the UTF-8 bytes of \<^verbatim>\<open>Hello World!\<close> as body: the twelve bytes from
  \<open>H\<close> (72) to \<open>!\<close> (33), with no white space or newline before or after them.
\<close>

theorem get_root_hello:
  assumes "req_method req = ''GET''" and "path req = ''/''"
  shows "fst (dispatch (app implicit name) req g) =
           Replied \<lparr>status_code = 200, data = encode ''Hello World!''\<rparr> \<and>
         encode ''Hello World!'' = [72, 101, 108, 108, 111, 32, 87, 111, 114, 108, 100, 33]"
  using assms by (simp add: dispatch_app make_response_def encode_hello)

theorem get_root_hello_witness:
  "fst (dispatch (app [''HEAD''] ''app'')
          \<lparr>req_method = ''GET'', path = ''/'', headers = [(''Accept'', ''text/plain'')],
             body = [1, 2]\<rparr>
          (0::nat)) =
     Replied \<lparr>status_code = 200,
       data = [72, 101, 108, 108, 111, 32, 87, 111, 114, 108, 100, 33]\<rparr>"
  using get_root_hello [of
      "\<lparr>req_method = ''GET'', path = ''/'', headers = [(''Accept'', ''text/plain'')],
         body = [1, 2]\<rparr>"
      "[''HEAD'']" "''app''" "0::nat"]
  by simp

text \<open>
  C2.  The response to \<^verbatim>\<open>GET /\<close> is deterministic and independent of the input: two
  such requests get the same reply whatever their headers and bodies, whatever the state
  of the process (clock, randomness, anything external) when each is handled, and
  whichever module name the application was created under.
\<close>

theorem get_root_deterministic:
  assumes "req_method r1 = ''GET''" and "path r1 = ''/''"
    and "req_method r2 = ''GET''" and "path r2 = ''/''"
  shows "fst (dispatch (app implicit name1) r1 g1) = fst (dispatch (app implicit name2) r2 g2)"
  using assms by (simp add: dispatch_app)

theorem get_root_deterministic_witness:
  "fst (dispatch (app [] ''app'')
          \<lparr>req_method = ''GET'', path = ''/'', headers = [(''Accept'', ''text/plain'')],
             body = [1, 2]\<rparr>
          (0::nat)) =
   fst (dispatch (app [] ''__main__'')
          \<lparr>req_method = ''GET'', path = ''/'', headers = [], body = []\<rparr> (7::nat))"
  using get_root_deterministic [of
      "\<lparr>req_method = ''GET'', path = ''/'', headers = [(''Accept'', ''text/plain'')],
         body = [1, 2]\<rparr>"
      "\<lparr>req_method = ''GET'', path = ''/'', headers = [], body = []\<rparr>"
      "[]" "''app''" "0::nat" "''__main__''" "7::nat"]
  by simp

text \<open>
  C4.  A request on the known path \<^verbatim>\<open>/\<close> whose method the route does not answer, such
  as \<^verbatim>\<open>POST\<close>, gets the 405 response \<open>MethodNotAllowed\<close>; it is a reply, not a
  failure, and the state of the process is untouched.
\<close>

theorem wrong_method_not_allowed:
  assumes "path req = ''/''" and "req_method req \<notin> set (''GET'' # implicit)"
  shows "dispatch (app implicit name) req g = (Rejected MethodNotAllowed, g) \<and>
         status (fst (dispatch (app implicit name) req g)) = Some 405"
  using assms by (simp add: dispatch_app)

theorem wrong_method_not_allowed_witness:
  "dispatch (app [''HEAD'', ''OPTIONS''] ''app'')
     \<lparr>req_method = ''POST'', path = ''/'', headers = [], body = [120]\<rparr> (0::nat) =
     (Rejected MethodNotAllowed, 0) \<and>
   status (fst (dispatch (app [''HEAD'', ''OPTIONS''] ''app'')
     \<lparr>req_method = ''POST'', path = ''/'', headers = [], body = [120]\<rparr> (0::nat))) = Some 405"
  using wrong_method_not_allowed [of
      "\<lparr>req_method = ''POST'', path = ''/'', headers = [], body = [120]\<rparr>"
      "[''HEAD'', ''OPTIONS'']" "''app''" "0::nat"]
  by simp

section \<open>Sequences of requests\<close>

lemma serve_all_app:
  "serve_all (app implicit name) reqs g =
     (map (\<lambda>req. fst (dispatch (app implicit name) req g')) reqs, g)"
proof (induction reqs)
  case Nil
  show ?case by simp
next
  case (Cons req reqs)
  have "dispatch (app implicit name) req g = (fst (dispatch (app implicit name) req g'), g)"
    using dispatch_app_state [of implicit name req g]
      dispatch_app_reply [of implicit name req g g']
    by (cases "dispatch (app implicit name) req g") simp
  with Cons.IH show ?case by simp
qed

text \<open>
  C7.  The system is stateless across requests.  Handling any sequence of requests leaves
  the state of the process as it was, and the reply to each request of the sequence is
  the reply that this request gets on its own, in any state \<open>g'\<close>: it does not depend on
  the requests handled before it.
\<close>

theorem stateless_across_requests:
  "snd (serve_all (app implicit name) reqs g) = g \<and>
   fst (serve_all (app implicit name) reqs g) =
     map (\<lambda>req. fst (dispatch (app implicit name) req g')) reqs \<and>
   fst (serve_all (app implicit name) (before @ req # after) g) ! length before =
     fst (dispatch (app implicit name) req g')"
  by (simp add: serve_all_app [of implicit name _ g g'] nth_append)

section \<open>The server process\<close>

text \<open>If the accept loop returns, the outside world has sent a termination.\<close>

lemma serve_forever_returns_terminate:
  assumes "serve_forever a evs i g log = Some res"
  shows "\<exists>n. evs n = Terminate"
proof (rule serve_forever.raw_induct
    [where P = "\<lambda>a evs i g log res. \<exists>n. evs n = Terminate", OF _ assms])
  fix sf :: "'a flask \<Rightarrow> (nat \<Rightarrow> event) \<Rightarrow> nat \<Rightarrow> 'a \<Rightarrow> reply list \<Rightarrow> (reply list \<times> 'a) option"
  fix a evs i g log res
  assume IH: "\<And>a evs i g log res. sf a evs i g log = Some res \<Longrightarrow> \<exists>n. evs n = Terminate"
  assume step: "(case evs i of
        Terminate \<Rightarrow> Some (log, g)
      | Incoming req \<Rightarrow>
          (case dispatch a req g of (x, g') \<Rightarrow> sf a evs (Suc i) g' (log @ [x]))) = Some res"
  show "\<exists>n. evs n = Terminate"
  proof (cases "evs i")
    case Terminate
    then show ?thesis by blast
  next
    case (Incoming req)
    with step obtain x g' where "sf a evs (Suc i) g' (log @ [x]) = Some res"
      by (auto split: prod.splits)
    then show ?thesis by (rule IH)
  qed
qed

lemma serve_forever_blocks:
  "\<forall>n. evs n \<noteq> Terminate \<Longrightarrow> serve_forever a evs i g log = None"
  using serve_forever_returns_terminate [of a evs i g log]
  by (cases "serve_forever a evs i g log") auto

text \<open>
  If the events from position \<open>i\<close> on are the requests \<open>reqs\<close> and then a termination,
  the loop returns after answering exactly these requests, in order.
\<close>

lemma serve_forever_serves:
  "\<forall>k<length reqs. evs (i + k) = Incoming (reqs ! k) \<Longrightarrow>
   evs (i + length reqs) = Terminate \<Longrightarrow>
   serve_forever a evs i g log =
     Some (log @ fst (serve_all a reqs g), snd (serve_all a reqs g))"
proof (induction reqs arbitrary: i g log)
  case Nil
  then show ?case by (simp add: serve_forever.simps)
next
  case (Cons req reqs)
  obtain x g' where d: "dispatch a req g = (x, g')" by (cases "dispatch a req g")
  have e: "evs i = Incoming req" using Cons.prems(1) by auto
  have "\<forall>k<length reqs. evs (Suc i + k) = Incoming (reqs ! k)"
    using Cons.prems(1) by fastforce
  moreover have "evs (Suc i + length reqs) = Terminate" using Cons.prems(2) by simp
  ultimately have "serve_forever a evs (Suc i) g' (log @ [x]) =
     Some ((log @ [x]) @ fst (serve_all a reqs g'), snd (serve_all a reqs g'))"
    by (rule Cons.IH)
  then show ?case
    by (subst serve_forever.simps) (simp add: e d split: prod.splits)
qed

text \<open>
  C5.  Run as the main module, with an address that can be bound, the program listens on
  host \<^verbatim>\<open>0.0.0.0\<close> (all interfaces) and port 5000, whatever else the process was given.
  It then blocks: if no termination ever comes from outside, \<^verbatim>\<open>run\<close> never returns;
  if the outside sends the requests \<open>reqs\<close> and then terminates it, it returns having
  answered exactly these requests.
\<close>

theorem main_binds_and_blocks:
  assumes "os ''0.0.0.0'' 5000 = Available"
  shows "(\<exists>r. main implicit ''__main__'' os evs g = Ran (''0.0.0.0'', 5000) r) \<and>
         ((\<forall>n. evs n \<noteq> Terminate) \<longrightarrow>
            main implicit ''__main__'' os evs g = Ran (''0.0.0.0'', 5000) None) \<and>
         ((\<forall>k<length reqs. evs k = Incoming (reqs ! k)) \<and> evs (length reqs) = Terminate \<longrightarrow>
            main implicit ''__main__'' os evs g =
              Ran (''0.0.0.0'', 5000) (Some (serve_all (app implicit ''__main__'') reqs g)))"
proof -
  have m: "main implicit ''__main__'' os evs g =
      Ran (''0.0.0.0'', 5000) (serve_forever (app implicit ''__main__'') evs 0 g [])"
    using assms by (simp add: main_def run_def)
  have blocks: "serve_forever (app implicit ''__main__'') evs 0 g [] = None"
    if "\<forall>n. evs n \<noteq> Terminate"
    using that by (rule serve_forever_blocks)
  have serves: "serve_forever (app implicit ''__main__'') evs 0 g [] =
      Some (serve_all (app implicit ''__main__'') reqs g)"
    if "\<forall>k<length reqs. evs k = Incoming (reqs ! k)" and "evs (length reqs) = Terminate"
    using serve_forever_serves [of reqs evs 0 "app implicit ''__main__''" g "[]"] that by simp
  show ?thesis using m blocks serves by simp
qed

theorem main_binds_and_blocks_witness:
  "main [] ''__main__'' (\<lambda>host port. Available)
     (\<lambda>n. Incoming \<lparr>req_method = ''GET'', path = ''/'', headers = [], body = []\<rparr>) (0::nat) =
     Ran (''0.0.0.0'', 5000) None \<and>
   main [] ''__main__'' (\<lambda>host port. Available)
     (\<lambda>n. if n = 0 then Incoming \<lparr>req_method = ''GET'', path = ''/'', headers = [], body = []\<rparr>
           else Terminate) (0::nat) =
     Ran (''0.0.0.0'', 5000)
       (Some ([Replied \<lparr>status_code = 200, data = encode ''Hello World!''\<rparr>], 0))"
proof -
  let ?r = "\<lparr>req_method = ''GET'', path = ''/'', headers = [], body = []\<rparr>"
  have a: "(\<lambda>host port. Available) ''0.0.0.0'' (5000::nat) = Available" by simp
  have "main [] ''__main__'' (\<lambda>host port. Available) (\<lambda>n. Incoming ?r) (0::nat) =
     Ran (''0.0.0.0'', 5000) None"
    using main_binds_and_blocks [OF a, of "[]" "\<lambda>n. Incoming ?r" "0::nat" "[]"] by simp
  moreover have "main [] ''__main__'' (\<lambda>host port. Available)
     (\<lambda>n. if n = 0 then Incoming ?r else Terminate) (0::nat) =
     Ran (''0.0.0.0'', 5000)
       (Some ([Replied \<lparr>status_code = 200, data = encode ''Hello World!''\<rparr>], 0))"
    using main_binds_and_blocks
      [OF a, of "[]" "\<lambda>n. if n = 0 then Incoming ?r else Terminate" "0::nat" "[?r]"]
    by (simp add: dispatch_app make_response_def)
  ultimately show ?thesis by simp
qed

text \<open>
  C8.  When the port is already in use or the process may not bind it, \<^verbatim>\<open>run\<close> fails
  with \<open>BindError\<close>; when the address is invalid it fails with \<open>StartupError\<close>.  The
  program does not catch the failure, so started on an address that is in use or not
  permitted it ends with the non-zero exit status 1.
\<close>

theorem startup_errors:
  "(os host port = AddressInUse \<or> os host port = PermissionDenied \<longrightarrow>
      run a host port os evs g = Inl BindError) \<and>
   (os host port = InvalidAddress \<longrightarrow> run a host port os evs g = Inl StartupError) \<and>
   (os ''0.0.0.0'' 5000 = AddressInUse \<or> os ''0.0.0.0'' 5000 = PermissionDenied \<longrightarrow>
      main implicit ''__main__'' os evs g = Uncaught BindError \<and>
      exit_status (main implicit ''__main__'' os evs g) = Some 1)"
  by (auto simp add: run_def main_def)

theorem startup_errors_witness:
  "run (app [] ''__main__'') ''0.0.0.0'' 5000 (\<lambda>host port. AddressInUse) (\<lambda>n. Terminate)
     (0::nat) = Inl BindError \<and>
   run (app [] ''__main__'') ''localhost:'' 80 (\<lambda>host port. InvalidAddress) (\<lambda>n. Terminate)
     (0::nat) = Inl StartupError \<and>
   exit_status (main [] ''__main__'' (\<lambda>host port. PermissionDenied) (\<lambda>n. Terminate) (0::nat)) =
     Some 1"
  using
    startup_errors [of "\<lambda>host port. AddressInUse" "''0.0.0.0''" 5000 "app [] ''__main__''"
      "\<lambda>n. Terminate" "0::nat" "[]"]
    startup_errors [of "\<lambda>host port. InvalidAddress" "''localhost:''" 80 "app [] ''__main__''"
      "\<lambda>n. Terminate" "0::nat" "[]"]
    startup_errors [of "\<lambda>host port. PermissionDenied" "''0.0.0.0''" 5000 "app [] ''__main__''"
      "\<lambda>n. Terminate" "0::nat" "[]"]
  by simp

end
